theory Spec2Isabelle
  imports Complex_Main
begin

section \<open>JavaScript values read by the dashboard\<close>

text \<open>
  A JavaScript number is kept as an exact rational, as one of the two infinities, or as
  \<open>NaN\<close>; the rounding of IEEE doubles is left out. The provider's JSON fields that the
  code tests for truthiness or hands to \<open>parseFloat\<close> are scalars: a missing field reads
  as \<open>undefined\<close>.
\<close>

datatype jsnum = NaN | Num rat | PosInf | NegInf

datatype jsval = Undefined | Null | JBool bool | JNum jsnum | JStr string

text \<open>
  The exceptions the code can meet: a \<open>TypeError\<close> from a method call on \<open>null\<close>, an
  \<open>Error\<close> with its message, and \<open>InvalidLatLng lat lng\<close>, which stands for the
  \<open>Error\<close> "Invalid LatLng object: (lat, lng)" of the map library.
\<close>

datatype js_error = TypeError | Error string | InvalidLatLng jsnum jsnum

text \<open>ToBoolean: \<open>undefined\<close>, \<open>null\<close>, \<open>false\<close>, \<open>0\<close>, \<open>NaN\<close> and \<open>""\<close> are falsy.\<close>

fun truthy :: "jsval \<Rightarrow> bool" where
  "truthy Undefined = False"
| "truthy Null = False"
| "truthy (JBool b) = b"
| "truthy (JNum NaN) = False"
| "truthy (JNum (Num q)) = (q \<noteq> 0)"
| "truthy (JNum PosInf) = True"
| "truthy (JNum NegInf) = True"
| "truthy (JStr s) = (s \<noteq> [])"

fun isNaN :: "jsnum \<Rightarrow> bool" where
  "isNaN NaN = True"
| "isNaN _ = False"

text \<open>
  \<open>parseFloat\<close> of ECMAScript on an ASCII string: leading white space is skipped, then the
  longest prefix that is a decimal literal (sign, digits, fraction, exponent, or
  \<open>Infinity\<close>) is read; when there is none the result is \<open>NaN\<close>.
\<close>

definition is_ws :: "char \<Rightarrow> bool" where
  "is_ws c = (c \<in> set [CHR 0x09, CHR 0x0A, CHR 0x0B, CHR 0x0C, CHR 0x0D, CHR 0x20])"

definition is_digit :: "char \<Rightarrow> bool" where
  "is_digit c = (c \<in> set ''0123456789'')"

definition digit_val :: "char \<Rightarrow> nat" where
  "digit_val c = of_char c - 48"

definition digits_val :: "string \<Rightarrow> nat" where
  "digits_val ds = foldl (\<lambda>a c. 10 * a + digit_val c) 0 ds"

definition split_sign :: "string \<Rightarrow> bool \<times> string" where
  "split_sign s =
     (case s of
        [] \<Rightarrow> (False, [])
      | c # r \<Rightarrow> if c = CHR ''-'' then (True, r)
                else if c = CHR ''+'' then (False, r) else (False, s))"

text \<open>The exponent part counts only when it is complete: \<open>e\<close>, an optional sign, a digit.\<close>

definition exponent_part :: "string \<Rightarrow> int" where
  "exponent_part s =
     (case s of
        [] \<Rightarrow> 0
      | c # r \<Rightarrow>
          if c = CHR ''e'' \<or> c = CHR ''E'' then
            (let (neg, r') = split_sign r; ds = takeWhile is_digit r' in
             if ds = [] then 0
             else if neg then - int (digits_val ds) else int (digits_val ds))
          else 0)"

definition scale10 :: "rat \<Rightarrow> int \<Rightarrow> rat" where
  "scale10 m e = (if 0 \<le> e then m * 10 ^ nat e else m / 10 ^ nat (- e))"

definition parseFloat_string :: "string \<Rightarrow> jsnum" where
  "parseFloat_string s =
     (let (neg, u) = split_sign (dropWhile is_ws s) in
      if take 8 u = ''Infinity'' then (if neg then NegInf else PosInf)
      else
        let ip = takeWhile is_digit u;
            r1 = dropWhile is_digit u;
            dot = (r1 \<noteq> [] \<and> hd r1 = CHR ''.'');
            fp = (if dot then takeWhile is_digit (tl r1) else []);
            r2 = (if dot then dropWhile is_digit (tl r1) else r1)
        in if ip = [] \<and> fp = [] then NaN
           else
             let m = scale10 (of_nat (digits_val (ip @ fp))) (exponent_part r2 - int (length fp))
             in Num (if neg then - m else m))"

text \<open>
  \<open>parseFloat\<close> first turns its argument into a string; a number survives the round trip,
  and \<open>"undefined"\<close>, \<open>"null"\<close>, \<open>"true"\<close> and \<open>"false"\<close> do not start a literal.
\<close>

fun parseFloat :: "jsval \<Rightarrow> jsnum" where
  "parseFloat (JNum n) = n"
| "parseFloat (JStr s) = parseFloat_string s"
| "parseFloat _ = NaN"

text \<open>\<open>Math.round\<close>: the nearest integer, a tie going towards plus infinity.\<close>

definition Math_round :: "rat \<Rightarrow> int" where
  "Math_round x = \<lfloor>x + 1 / 2\<rfloor>"


section \<open>Fleet State Coordinator (useFleet.js)\<close>

text \<open>
  A vehicle as the telemetry provider returns it. \<open>LastPosition\<close> is absent for a vehicle
  that never reported; its coordinates arrive as scalars (strings in practice).
\<close>

record last_position =
  Latitude :: jsval
  Longitude :: jsval

record vehicle =
  Code :: string
  Name :: string
  SPZ :: string
  Speed :: rat
  LastPosition :: "last_position option"

record fleet =
  groupCode :: string
  vehicles :: "vehicle list"
  loading :: bool
  lastRefresh :: string

definition movingCount :: "vehicle list \<Rightarrow> nat" where
  "movingCount vs = length (filter (\<lambda>v. Speed v > 0) vs)"

definition idleCount :: "vehicle list \<Rightarrow> nat" where
  "idleCount vs = length (filter (\<lambda>v. Speed v = 0) vs)"

definition avgSpeed :: "vehicle list \<Rightarrow> int" where
  "avgSpeed vs =
     (let moving = filter (\<lambda>v. Speed v > 0) vs in
      if length moving = 0 then 0
      else Math_round (foldl (\<lambda>sum v. sum + Speed v) 0 moving / of_nat (length moving)))"

text \<open>
  \<open>refresh()\<close> suspends once, at \<open>await getVehicles(groupCode)\<close>. \<open>refresh_start\<close> is the
  part that runs before the request is in flight, \<open>refresh_settle\<close> the part that runs
  when the request settles: with the vehicle list, or with the error \<open>apiFetch\<close> threw.
  \<open>now\<close> is the value of \<open>new Date().toLocaleTimeString('cs-CZ')\<close> at that moment. The
  first component of the result is the error the promise of \<open>refresh()\<close> rejects with.
\<close>

definition refresh_start :: "fleet \<Rightarrow> fleet" where
  "refresh_start st = st\<lparr>loading := True\<rparr>"

definition refresh_settle :: "js_error + vehicle list \<Rightarrow> string \<Rightarrow> fleet \<Rightarrow> js_error option \<times> fleet" where
  "refresh_settle resp now st =
     (case resp of
        Inr vs \<Rightarrow> (None, st\<lparr>vehicles := vs, lastRefresh := now, loading := False\<rparr>)
      | Inl e \<Rightarrow> (Some e, st\<lparr>loading := False\<rparr>))"

definition refresh :: "js_error + vehicle list \<Rightarrow> string \<Rightarrow> fleet \<Rightarrow> js_error option \<times> fleet" where
  "refresh resp now st = refresh_settle resp now (refresh_start st)"


section \<open>Map Rendering Engine (useMap.js)\<close>

text \<open>
  The Leaflet objects are kept by what the engine puts into them. A layer group is the
  list of the layers added to it, in the order of the calls; the map object is the view
  it was last given. The three variables of \<open>useMap\<close> are \<open>null\<close> until
  \<open>onMounted\<close> has run; the variable \<open>map\<close> is the field \<open>map_view\<close>. Constant style
  options (opacity, dash pattern, icon anchor) and the HTML around a popup's text are
  left out.
\<close>

type_synonym latlng = "jsnum \<times> jsnum"

datatype icon = DivIcon nat string string

datatype popup = VehiclePopup string string rat | TextPopup string

text \<open>A marker carries the vehicle its click handler passes to \<open>onVehicleClick\<close>, if any.\<close>

datatype layer =
    Marker latlng icon popup "vehicle option"
  | Polyline "latlng list" string nat

datatype viewport =
    SetView latlng nat
  | FitBounds "latlng list" "nat \<times> nat"

text \<open>
  Leaflet turns every coordinate pair it is given into a \<open>LatLng\<close>, and the constructor
  of \<open>LatLng\<close> throws when the latitude or the longitude is \<open>NaN\<close>. So \<open>L.marker\<close>,
  \<open>L.polyline\<close>, \<open>map.setView\<close> and \<open>map.fitBounds\<close> throw on such a pair, at the first one
  in the order of their arguments, before they build or change anything. \<open>map.fitBounds\<close>
  also rejects bounds without a point.
\<close>

definition toLatLng :: "latlng \<Rightarrow> js_error + latlng" where
  "toLatLng p =
     (if isNaN (fst p) \<or> isNaN (snd p) then Inl (InvalidLatLng (fst p) (snd p)) else Inr p)"

fun convertLatLngs :: "latlng list \<Rightarrow> js_error option" where
  "convertLatLngs [] = None"
| "convertLatLngs (p # ps) =
     (case toLatLng p of Inl e \<Rightarrow> Some e | Inr _ \<Rightarrow> convertLatLngs ps)"

definition L_marker :: "latlng \<Rightarrow> icon \<Rightarrow> popup \<Rightarrow> vehicle option \<Rightarrow> js_error + layer" where
  "L_marker p ic pop v =
     (case toLatLng p of Inl e \<Rightarrow> Inl e | Inr q \<Rightarrow> Inr (Marker q ic pop v))"

definition L_polyline :: "latlng list \<Rightarrow> string \<Rightarrow> nat \<Rightarrow> js_error + layer" where
  "L_polyline pts color weight =
     (case convertLatLngs pts of Some e \<Rightarrow> Inl e | None \<Rightarrow> Inr (Polyline pts color weight))"

definition map_setView :: "latlng \<Rightarrow> nat \<Rightarrow> js_error + viewport" where
  "map_setView center zoom =
     (case toLatLng center of Inl e \<Rightarrow> Inl e | Inr q \<Rightarrow> Inr (SetView q zoom))"

definition map_fitBounds :: "latlng list \<Rightarrow> nat \<times> nat \<Rightarrow> js_error + viewport" where
  "map_fitBounds pts padding =
     (case convertLatLngs pts of
        Some e \<Rightarrow> Inl e
      | None \<Rightarrow>
          if pts = [] then Inl (Error ''Bounds are not valid.'')
          else Inr (FitBounds pts padding))"

record engine =
  map_view :: "viewport option"
  markersLayer :: "layer list option"
  historyLayer :: "layer list option"

definition unmounted :: engine where
  "unmounted = \<lparr>map_view = None, markersLayer = None, historyLayer = None\<rparr>"

definition onMounted :: "engine \<Rightarrow> engine" where
  "onMounted e =
     e\<lparr>map_view := Some (SetView (Num (5007 / 100), Num (1443 / 100)) 7),
       markersLayer := Some [], historyLayer := Some []\<rparr>"

definition vehicleIcon :: "rat \<Rightarrow> icon" where
  "vehicleIcon speed =
     (let color = (if speed > 0 then ''#3dd68c'' else ''#4a5568'');
          glow = (if speed > 0 then ''box-shadow:0 0 8px '' @ color @ '';'' else [])
      in DivIcon 14 color glow)"

definition pinIcon :: "string \<Rightarrow> icon" where
  "pinIcon color = DivIcon 12 color []"

text \<open>\<open>v.LastPosition?.Latitude\<close> and its sibling: \<open>undefined\<close> without a \<open>LastPosition\<close>.\<close>

definition LastPosition_Latitude :: "vehicle \<Rightarrow> jsval" where
  "LastPosition_Latitude v = (case LastPosition v of None \<Rightarrow> Undefined | Some p \<Rightarrow> Latitude p)"

definition LastPosition_Longitude :: "vehicle \<Rightarrow> jsval" where
  "LastPosition_Longitude v = (case LastPosition v of None \<Rightarrow> Undefined | Some p \<Rightarrow> Longitude p)"

text \<open>The body of the \<open>forEach\<close> callback of \<open>updateMarkers\<close>: \<open>None\<close> where it returns early.\<close>

definition vehicle_marker :: "vehicle \<Rightarrow> layer option" where
  "vehicle_marker v =
     (if \<not> truthy (LastPosition_Latitude v) then None
      else
        let lat = parseFloat (LastPosition_Latitude v);
            lng = parseFloat (LastPosition_Longitude v)
        in if isNaN lat \<or> isNaN lng then None
           else Some (Marker (lat, lng) (vehicleIcon (Speed v))
                  (VehiclePopup (Name v) (if SPZ v = [] then ''No plate'' else SPZ v) (Speed v))
                  (Some v)))"

definition updateMarkers :: "vehicle list \<Rightarrow> engine \<Rightarrow> engine" where
  "updateMarkers vs e =
     (case markersLayer e of
        None \<Rightarrow> e
      | Some _ \<Rightarrow>
          e\<lparr>markersLayer :=
              Some (foldl (\<lambda>ls v. case vehicle_marker v of None \<Rightarrow> ls | Some m \<Rightarrow> ls @ [m]) [] vs)\<rparr>)"

text \<open>A position sample of a history response; \<open>pos_Speed\<close> is its field \<open>Speed\<close>.\<close>

record position =
  Lat :: jsval
  Lng :: jsval
  pos_Speed :: rat

definition speed_color :: "rat \<Rightarrow> string" where
  "speed_color speed =
     (if speed > 90 then ''#ff4757'' else if speed > 60 then ''#f5a623'' else ''#3dd68c'')"

text \<open>
  One turn of the \<open>for\<close> loop of \<open>drawHistory\<close>, on the exception thrown so far and the
  segments added so far: once a turn has thrown, no later turn runs.
\<close>

definition add_segment ::
  "latlng list \<Rightarrow> position list \<Rightarrow> js_error option \<times> layer list \<Rightarrow> nat
     \<Rightarrow> js_error option \<times> layer list" where
  "add_segment coords positions acc i =
     (case fst acc of
        Some e \<Rightarrow> acc
      | None \<Rightarrow>
          (case L_polyline [coords ! i, coords ! (i + 1)]
                  (speed_color (pos_Speed (positions ! i))) 3 of
             Inl e \<Rightarrow> (Some e, snd acc)
           | Inr segment \<Rightarrow> (None, snd acc @ [segment])))"

text \<open>
  \<open>drawHistory\<close> returns the exception it throws, if any, with the engine as the throw
  leaves it: a \<open>TypeError\<close> where it calls a method of a variable that is still \<open>null\<close>,
  the library's error where a coordinate is \<open>NaN\<close>.
\<close>

definition drawHistory :: "position list option \<Rightarrow> engine \<Rightarrow> js_error option \<times> engine" where
  "drawHistory positions e =
     (case historyLayer e of
        None \<Rightarrow> (None, e)
      | Some _ \<Rightarrow>
          (case markersLayer e of
             None \<Rightarrow> (Some TypeError, e\<lparr>historyLayer := Some []\<rparr>)
           | Some _ \<Rightarrow>
               (let e1 = e\<lparr>historyLayer := Some [], markersLayer := Some []\<rparr> in
                case positions of
                  None \<Rightarrow> (None, e1)
                | Some ps \<Rightarrow>
                    if length ps = 0 then (None, e1)
                    else
                      let coords = map (\<lambda>p. (parseFloat (Lat p), parseFloat (Lng p))) ps;
                          loop = foldl (add_segment coords ps) (None, []) [0..<length coords - 1];
                          segments = snd loop
                      in (case fst loop of
                            Some err \<Rightarrow> (Some err, e1\<lparr>historyLayer := Some segments\<rparr>)
                          | None \<Rightarrow>
                              (case L_marker (coords ! 0) (pinIcon ''#3dd68c'')
                                      (TextPopup ''Start'') None of
                                 Inl err \<Rightarrow> (Some err, e1\<lparr>historyLayer := Some segments\<rparr>)
                               | Inr start \<Rightarrow>
                                   (case L_marker (coords ! (length coords - 1))
                                           (pinIcon ''#ff4757'') (TextPopup ''End'') None of
                                      Inl err \<Rightarrow>
                                        (Some err,
                                         e1\<lparr>historyLayer := Some (segments @ [start])\<rparr>)
                                    | Inr finish \<Rightarrow>
                                        (let e2 = e1\<lparr>historyLayer :=
                                                       Some (segments @ [start, finish])\<rparr>
                                         in case map_view e2 of
                                              None \<Rightarrow> (Some TypeError, e2)
                                            | Some _ \<Rightarrow>
                                                (case map_fitBounds coords (40, 40) of
                                                   Inl err \<Rightarrow> (Some err, e2)
                                                 | Inr view \<Rightarrow>
                                                     (None, e2\<lparr>map_view := Some view\<rparr>)))))))))"

definition fitAll :: "vehicle list \<Rightarrow> engine \<Rightarrow> js_error option \<times> engine" where
  "fitAll vs e =
     (let points =
            filter (\<lambda>p. \<not> isNaN (fst p))
              (map (\<lambda>v. (parseFloat (LastPosition_Latitude v), parseFloat (LastPosition_Longitude v)))
                 (filter (\<lambda>v. truthy (LastPosition_Latitude v)) vs))
      in if length points \<noteq> 0 then
           (case map_view e of
              None \<Rightarrow> (Some TypeError, e)
            | Some _ \<Rightarrow>
                (case map_fitBounds points (30, 30) of
                   Inl err \<Rightarrow> (Some err, e)
                 | Inr view \<Rightarrow> (None, e\<lparr>map_view := Some view\<rparr>)))
         else (None, e))"

definition panTo :: "vehicle \<Rightarrow> engine \<Rightarrow> js_error option \<times> engine" where
  "panTo v e =
     (if \<not> truthy (LastPosition_Latitude v) then (None, e)
      else
        let lat = parseFloat (LastPosition_Latitude v);
            lng = parseFloat (LastPosition_Longitude v)
        in if \<not> isNaN lat then
             (case map_view e of
                None \<Rightarrow> (Some TypeError, e)
              | Some _ \<Rightarrow>
                  (case map_setView (lat, lng) 13 of
                     Inl err \<Rightarrow> (Some err, e)
                   | Inr view \<Rightarrow> (None, e\<lparr>map_view := Some view\<rparr>)))
           else (None, e))"

definition clearHistory :: "engine \<Rightarrow> engine" where
  "clearHistory e =
     (case historyLayer e of None \<Rightarrow> e | Some _ \<Rightarrow> e\<lparr>historyLayer := Some []\<rparr>)"

text \<open>The number of vehicle markers the marker layer shows.\<close>

definition vehicle_count :: "engine \<Rightarrow> nat" where
  "vehicle_count e = (case markersLayer e of None \<Rightarrow> 0 | Some ls \<Rightarrow> length ls)"

fun clicked :: "layer \<Rightarrow> vehicle option" where
  "clicked (Marker _ _ _ v) = v"
| "clicked (Polyline _ _ _) = None"

section \<open>Eco-driving events (DetailPanel.vue, App.vue)\<close>

text \<open>
  An eco event's speed (the field \<open>Speed\<close>, here \<open>ev_Speed\<close>) is a JSON integer; the
  provider writes the least 32-bit signed integer where it has no reading.
\<close>

record eco_event =
  EventType :: int
  EventSeverity :: int
  Timestamp :: string
  ev_Speed :: int

text \<open>Number to string, for an integer: decimal digits, a minus sign when negative.\<close>

fun nat_digits :: "nat \<Rightarrow> string" where
  "nat_digits n =
     (if n < 10 then [''0123456789'' ! n]
      else nat_digits (n div 10) @ [''0123456789'' ! (n mod 10)])"

definition Number_toString :: "int \<Rightarrow> string" where
  "Number_toString n = (if n < 0 then CHR ''-'' # nat_digits (nat (- n)) else nat_digits (nat n))"

text \<open>The speed shown in an eco event row of the detail panel.\<close>

definition eco_speed_text :: "eco_event \<Rightarrow> string" where
  "eco_speed_text ev =
     (if ev_Speed ev > - 2147483648 then Number_toString (ev_Speed ev) @ '' km/h'' else ''N/A'')"

definition ECO_NAMES :: "int \<Rightarrow> string option" where
  "ECO_NAMES =
     map_of
       [(0, ''Unknown''), (1, ''Cornering L''), (2, ''Cornering R''), (3, ''Cornering''),
        (4, ''Hard Accel''), (5, ''Hard Brake''), (6, ''Bump''), (7, ''Long Clutch''),
        (8, ''Neutral Drive''), (9, ''Freewheeling'')]"

text \<open>
  The aggregation of \<open>drawEcoChart\<close>: the object \<open>counts\<close> as the list of its entries in
  insertion order, which is the order of \<open>Object.keys\<close> and \<open>Object.values\<close>.
\<close>

fun assign :: "string \<Rightarrow> nat \<Rightarrow> (string \<times> nat) list \<Rightarrow> (string \<times> nat) list" where
  "assign k v [] = [(k, v)]"
| "assign k v (p # ps) = (if fst p = k then (k, v) # ps else p # assign k v ps)"

definition drawEcoChart_counts :: "eco_event list \<Rightarrow> (string \<times> nat) list" where
  "drawEcoChart_counts evs =
     foldl (\<lambda>counts ev.
              let name = (case ECO_NAMES (EventType ev) of None \<Rightarrow> ''Unknown'' | Some n \<Rightarrow> n)
              in assign name ((case map_of counts name of None \<Rightarrow> 0 | Some c \<Rightarrow> c) + 1) counts)
       [] evs"


section \<open>Enrichment and View Orchestrator (useWeather.js, useVehicleDetail.js, App.vue)\<close>

datatype tab = TripsTab | EcoTab

datatype map_mode = Live | History

record trip =
  StartTime :: string
  TotalDistance :: rat
  AverageSpeed :: rat
  MaxSpeed :: rat

record current_weather =
  temperature_2m :: rat
  wind_speed_10m :: rat
  weather_code :: "int option"

text \<open>The snapshot stored in \<open>weather\<close>; the icon glyph of the table is left out.\<close>

record weather_snapshot =
  label :: string
  temp :: rat
  wind :: rat

definition WMO_CODES :: "int \<Rightarrow> string option" where
  "WMO_CODES =
     map_of
       [(0, ''Clear sky''), (1, ''Mainly clear''), (2, ''Partly cloudy''), (3, ''Overcast''),
        (45, ''Fog''), (48, ''Icy fog''), (51, ''Light drizzle''), (53, ''Drizzle''),
        (55, ''Dense drizzle''), (56, ''Freezing drizzle''), (57, ''Heavy freezing drizzle''),
        (61, ''Slight rain''), (63, ''Rain''), (65, ''Heavy rain''), (66, ''Freezing rain''),
        (67, ''Heavy freezing rain''), (71, ''Slight snow''), (73, ''Snow''), (75, ''Heavy snow''),
        (77, ''Snow grains''), (80, ''Slight showers''), (81, ''Showers''), (82, ''Heavy showers''),
        (85, ''Snow showers''), (86, ''Heavy snow showers''), (95, ''Thunderstorm''),
        (96, ''Thunderstorm w/ hail''), (99, ''Thunderstorm w/ heavy hail'')]"

definition UNKNOWN_CODE :: string where
  "UNKNOWN_CODE = ''Unknown''"

record address_fields =
  road :: "string option"
  pedestrian :: "string option"
  path :: "string option"
  city :: "string option"
  town :: "string option"
  village :: "string option"
  municipality :: "string option"

record geocode_result =
  address :: "address_fields option"
  display_name :: "string option"

text \<open>\<open>a ?? b ?? ... ?? d\<close>: the first operand that is neither \<open>null\<close> nor \<open>undefined\<close>.\<close>

fun coalesce :: "'a option list \<Rightarrow> 'a \<Rightarrow> 'a" where
  "coalesce [] d = d"
| "coalesce (None # xs) d = coalesce xs d"
| "coalesce (Some x # xs) d = x"

text \<open>
  A request in flight, with what the code waiting for it has captured: the trip request
  of \<open>onSelectVehicle(v)\<close> keeps \<open>v\<close>, whose code is in the URL and whose position the
  handler reads once the request has settled.
\<close>

datatype request =
    GetTrips vehicle
  | GetCurrentWeather jsnum jsnum
  | ReverseGeocode jsnum jsnum

record app =
  selectedVehicle :: "vehicle option"
  currentAddress :: "string option"
  activeTab :: tab
  mapMode :: map_mode
  trips :: "trip list"
  ecoEvents :: "eco_event list"
  loadingTrips :: bool
  loadingEco :: bool
  weather :: "weather_snapshot option"
  loadingWeather :: bool
  engine :: engine
  pending :: "request list"

text \<open>
  An \<open>async\<close> function runs until its first \<open>await\<close> of a network request; the rest runs
  when the request settles. Each is split in two accordingly. A handler returns the
  error its promise rejects with, if any, and the state as it leaves it.
\<close>

definition fetchTrips_start :: "vehicle \<Rightarrow> app \<Rightarrow> app" where
  "fetchTrips_start v st =
     st\<lparr>loadingTrips := True, trips := [], pending := pending st @ [GetTrips v]\<rparr>"

definition fetchTrips_settle :: "js_error + trip list option \<Rightarrow> app \<Rightarrow> js_error option \<times> app" where
  "fetchTrips_settle resp st =
     (case resp of
        Inr data \<Rightarrow>
          (None, st\<lparr>trips := (case data of None \<Rightarrow> [] | Some ts \<Rightarrow> ts), loadingTrips := False\<rparr>)
      | Inl e \<Rightarrow> (Some e, st\<lparr>loadingTrips := False\<rparr>))"

definition fetchWeather_start :: "jsnum \<Rightarrow> jsnum \<Rightarrow> app \<Rightarrow> app" where
  "fetchWeather_start lat lng st =
     st\<lparr>loadingWeather := True, weather := None,
        pending := pending st @ [GetCurrentWeather lat lng]\<rparr>"

definition fetchWeather_settle :: "js_error + current_weather \<Rightarrow> app \<Rightarrow> app" where
  "fetchWeather_settle resp st =
     (case resp of
        Inr current \<Rightarrow>
          (let code = (case weather_code current of None \<Rightarrow> 0 | Some c \<Rightarrow> c);
               meta = (case WMO_CODES code of None \<Rightarrow> UNKNOWN_CODE | Some m \<Rightarrow> m)
           in st\<lparr>weather := Some \<lparr>label = meta, temp = temperature_2m current,
                                   wind = wind_speed_10m current\<rparr>,
                 loadingWeather := False\<rparr>)
      | Inl e \<Rightarrow> st\<lparr>loadingWeather := False\<rparr>)"

definition fetchAddress_start :: "jsnum \<Rightarrow> jsnum \<Rightarrow> app \<Rightarrow> app" where
  "fetchAddress_start lat lng st = st\<lparr>pending := pending st @ [ReverseGeocode lat lng]\<rparr>"

definition fetchAddress_settle :: "js_error + geocode_result \<Rightarrow> app \<Rightarrow> app" where
  "fetchAddress_settle resp st =
     (case resp of
        Inr result \<Rightarrow>
          (let addr = (case address result of
                         None \<Rightarrow> \<lparr>road = None, pedestrian = None, path = None, city = None,
                                  town = None, village = None, municipality = None\<rparr>
                       | Some a \<Rightarrow> a);
               road = coalesce [road addr, pedestrian addr, path addr] [];
               city = coalesce [city addr, town addr, village addr, municipality addr] []
           in st\<lparr>currentAddress :=
                   (if road \<noteq> [] \<and> city \<noteq> [] then Some (road @ '', '' @ city)
                    else display_name result)\<rparr>)
      | Inl e \<Rightarrow> st)"

text \<open>\<open>onSelectVehicle(v)\<close> up to \<open>await fetchTrips(v.Code)\<close>.\<close>

definition onSelectVehicle :: "vehicle \<Rightarrow> app \<Rightarrow> js_error option \<times> app" where
  "onSelectVehicle v st =
     (let st1 = st\<lparr>selectedVehicle := Some v, mapMode := Live,
                   engine := clearHistory (engine st)\<rparr>
      in case panTo v (engine st1) of
           (Some e, eng) \<Rightarrow> (Some e, st1\<lparr>engine := eng\<rparr>)
         | (None, eng) \<Rightarrow>
             (None,
              fetchTrips_start v
                (st1\<lparr>engine := eng, currentAddress := None, activeTab := TripsTab,
                     trips := [], ecoEvents := []\<rparr>)))"

text \<open>
  \<open>onSelectVehicle(v)\<close> from the moment its trip request settles. Drawing the speed
  chart changes no state kept here.
\<close>

definition onSelectVehicle_resume :: "vehicle \<Rightarrow> js_error + trip list option \<Rightarrow> app \<Rightarrow> js_error option \<times> app" where
  "onSelectVehicle_resume v resp st =
     (case fetchTrips_settle resp st of
        (Some e, st1) \<Rightarrow> (Some e, st1)
      | (None, st1) \<Rightarrow>
          (let lat = parseFloat (LastPosition_Latitude v);
               lng = parseFloat (LastPosition_Longitude v)
           in if \<not> isNaN lat \<and> \<not> isNaN lng then
                (None, fetchAddress_start lat lng (fetchWeather_start lat lng st1))
              else (None, st1)))"

text \<open>
  What can happen next: the user selects a vehicle, or a request in flight settles. A
  request that is not in flight cannot settle: such an event changes nothing. Tab
  switches, reloads and map-mode toggles are not among the events.
\<close>

datatype event =
    SelectVehicle vehicle
  | TripsSettled vehicle "js_error + trip list option"
  | WeatherSettled jsnum jsnum "js_error + current_weather"
  | AddressSettled jsnum jsnum "js_error + geocode_result"

fun handle :: "event \<Rightarrow> app \<Rightarrow> js_error option \<times> app" where
  "handle (SelectVehicle v) st = onSelectVehicle v st"
| "handle (TripsSettled v resp) st =
     (if GetTrips v \<in> set (pending st) then
        onSelectVehicle_resume v resp (st\<lparr>pending := remove1 (GetTrips v) (pending st)\<rparr>)
      else (None, st))"
| "handle (WeatherSettled lat lng resp) st =
     (if GetCurrentWeather lat lng \<in> set (pending st) then
        (None, fetchWeather_settle resp
                 (st\<lparr>pending := remove1 (GetCurrentWeather lat lng) (pending st)\<rparr>))
      else (None, st))"
| "handle (AddressSettled lat lng resp) st =
     (if ReverseGeocode lat lng \<in> set (pending st) then
        (None, fetchAddress_settle resp
                 (st\<lparr>pending := remove1 (ReverseGeocode lat lng) (pending st)\<rparr>))
      else (None, st))"

text \<open>The state after a sequence of events, each handled to completion before the next.\<close>

definition run :: "event list \<Rightarrow> app \<Rightarrow> app" where
  "run evs st = foldl (\<lambda>s ev. snd (handle ev s)) st evs"

text \<open>The state of \<open>App.vue\<close> once the map has been mounted and before any event.\<close>

definition initial_app :: app where
  "initial_app =
     \<lparr>selectedVehicle = None, currentAddress = None, activeTab = TripsTab, mapMode = Live,
      trips = [], ecoEvents = [], loadingTrips = False, loadingEco = False, weather = None,
      loadingWeather = False, engine = onMounted unmounted, pending = []\<rparr>"


section \<open>The specification's wording\<close>

text \<open>The moving vehicles of a fleet: those with a speed above zero.\<close>

definition moving_vehicles :: "vehicle list \<Rightarrow> vehicle list" where
  "moving_vehicles vs = filter (\<lambda>v. 0 < Speed v) vs"

text \<open>
  The three speed tiers of a route segment as the specification words them: up to 60 km/h
  the low-severity colour, up to 90 km/h the middle one, above 90 km/h the high one.
\<close>

definition severity_color :: "rat \<Rightarrow> string" where
  "severity_color s =
     (if s \<le> 60 then ''#3dd68c'' else if s \<le> 90 then ''#f5a623'' else ''#ff4757'')"

text \<open>The map coordinates of a position sample.\<close>

definition coord :: "position \<Rightarrow> latlng" where
  "coord p = (parseFloat (Lat p), parseFloat (Lng p))"


section \<open>Example data\<close>

definition scenario_fleet :: "vehicle list" where
  "scenario_fleet =
     [\<lparr>Code = ''V1'', Name = [], SPZ = [], Speed = 0, LastPosition = None\<rparr>,
      \<lparr>Code = ''V2'', Name = [], SPZ = [], Speed = 45, LastPosition = None\<rparr>,
      \<lparr>Code = ''V3'', Name = [], SPZ = [], Speed = 120, LastPosition = None\<rparr>]"

definition mounted :: engine where
  "mounted = onMounted unmounted"

definition vehicle_prague :: vehicle where
  "vehicle_prague =
     \<lparr>Code = ''V1'', Name = ''Octavia'', SPZ = ''1AB2345'', Speed = 45,
      LastPosition = Some \<lparr>Latitude = JStr ''50.08'', Longitude = JStr ''14.43''\<rparr>\<rparr>"

definition vehicle_equator :: vehicle where
  "vehicle_equator =
     \<lparr>Code = ''V2'', Name = ''Ferry'', SPZ = [], Speed = 12,
      LastPosition = Some \<lparr>Latitude = JNum (Num 0), Longitude = JStr ''14.43''\<rparr>\<rparr>"

definition vehicle_blank_latitude :: vehicle where
  "vehicle_blank_latitude =
     \<lparr>Code = ''V5'', Name = ''Loader'', SPZ = [], Speed = 0,
      LastPosition = Some \<lparr>Latitude = JStr [], Longitude = JStr ''14.43''\<rparr>\<rparr>"

definition vehicle_no_longitude :: vehicle where
  "vehicle_no_longitude =
     \<lparr>Code = ''V3'', Name = ''Van'', SPZ = [], Speed = 0,
      LastPosition = Some \<lparr>Latitude = JStr ''50.1'', Longitude = Null\<rparr>\<rparr>"

definition vehicle_unlocated :: vehicle where
  "vehicle_unlocated =
     \<lparr>Code = ''V4'', Name = ''Trailer'', SPZ = [], Speed = 0, LastPosition = None\<rparr>"

definition sample_track :: "position list" where
  "sample_track =
     [\<lparr>Lat = JStr ''50.1'', Lng = JStr ''14.2'', pos_Speed = 60\<rparr>,
      \<lparr>Lat = JStr ''50.2'', Lng = JStr ''14.3'', pos_Speed = 90\<rparr>,
      \<lparr>Lat = JStr ''50.3'', Lng = JStr ''14.4'', pos_Speed = 91\<rparr>,
      \<lparr>Lat = JStr ''50.4'', Lng = JStr ''14.5'', pos_Speed = 0\<rparr>]"

definition broken_track :: "position list" where
  "broken_track =
     [\<lparr>Lat = JStr ''50.1'', Lng = JStr ''14.2'', pos_Speed = 50\<rparr>,
      \<lparr>Lat = JStr ''abc'', Lng = JStr ''14.3'', pos_Speed = 61\<rparr>]"

definition trip_a :: trip where
  "trip_a =
     \<lparr>StartTime = ''2024-01-01T08:00'', TotalDistance = 12, AverageSpeed = 40, MaxSpeed = 70\<rparr>"

definition trip_b :: trip where
  "trip_b =
     \<lparr>StartTime = ''2024-01-02T09:30'', TotalDistance = 3, AverageSpeed = 20, MaxSpeed = 50\<rparr>"

definition sunny :: current_weather where
  "sunny = \<lparr>temperature_2m = 21, wind_speed_10m = 9, weather_code = Some 0\<rparr>"

definition harsh_brake :: eco_event where
  "harsh_brake =
     \<lparr>EventType = 5, EventSeverity = 2, Timestamp = ''2024-01-01T08:00'', ev_Speed = 87\<rparr>"

definition no_reading :: eco_event where
  "no_reading =
     \<lparr>EventType = 4, EventSeverity = 1, Timestamp = ''2024-01-01T08:05'',
      ev_Speed = - 2147483648\<rparr>"

definition stale_fleet :: fleet where
  "stale_fleet =
     \<lparr>groupCode = ''G1'', vehicles = scenario_fleet, loading = False, lastRefresh = ''08:00:00''\<rparr>"


section \<open>Evaluation rules\<close>

lemmas parseFloat_eval =
  parseFloat_string_def split_sign_def is_ws_def is_digit_def digits_val_def digit_val_def
  exponent_part_def scale10_def

lemmas position_eval = LastPosition_Latitude_def LastPosition_Longitude_def

lemmas app_eval =
  run_def onSelectVehicle_def onSelectVehicle_resume_def fetchTrips_start_def
  fetchTrips_settle_def fetchWeather_start_def fetchWeather_settle_def fetchAddress_start_def
  fetchAddress_settle_def clearHistory_def panTo_def map_setView_def toLatLng_def
  position_eval onMounted_def unmounted_def
  WMO_CODES_def UNKNOWN_CODE_def Let_def


section \<open>Fleet statistics\<close>

lemma foldl_Speed_sum:
  "foldl (\<lambda>sum v. sum + Speed v) a xs = a + sum_list (map Speed xs)"
  by (induction xs arbitrary: a) auto

lemma Math_round_is_round: "Math_round x = round x"
  by (simp add: Math_round_def round_def)

lemma moving_vehicles_empty: "moving_vehicles vs = [] \<longleftrightarrow> \<not> (\<exists>v\<in>set vs. 0 < Speed v)"
  by (auto simp: moving_vehicles_def filter_empty_conv)

text \<open>
  Claim C4. In a vehicle collection of the data model, where every speed is a number of
  km/h that is not negative, each vehicle is counted once: \<open>movingCount\<close> (speed above
  zero) plus \<open>idleCount\<close> (speed zero) is the length of the collection, and neither count
  is negative.
\<close>

theorem counts_partition_fleet:
  assumes "\<forall>v\<in>set vs. 0 \<le> Speed v"
  shows "movingCount vs + idleCount vs = length vs \<and>
         0 \<le> int (movingCount vs) \<and> 0 \<le> int (idleCount vs)"
  using assms unfolding movingCount_def idleCount_def
  by (induction vs) auto

theorem counts_partition_fleet_witness:
  "list_all (\<lambda>v. 0 \<le> Speed v) scenario_fleet \<and>
   movingCount scenario_fleet + idleCount scenario_fleet = length scenario_fleet \<and>
   movingCount scenario_fleet = 2 \<and> idleCount scenario_fleet = 1"
proof -
  have h: "\<forall>v\<in>set scenario_fleet. 0 \<le> Speed v"
    by (simp add: scenario_fleet_def)
  show ?thesis
    using counts_partition_fleet [OF h] h
    by (simp add: scenario_fleet_def movingCount_def idleCount_def list_all_iff)
qed

text \<open>
  Claim C5. \<open>avgSpeed\<close> is 0 when no vehicle has a speed above zero. Otherwise it is the
  arithmetic mean of the moving vehicles' speeds rounded to the nearest integer, so it is
  at most one half away from the mean. For the speeds 0, 45 and 120 the three statistics
  are 2, 1 and 83.
\<close>

theorem avgSpeed_rounded_mean:
  "(\<not> (\<exists>v\<in>set vs. 0 < Speed v) \<longrightarrow> avgSpeed vs = 0) \<and>
   ((\<exists>v\<in>set vs. 0 < Speed v) \<longrightarrow>
      avgSpeed vs =
        round (sum_list (map Speed (moving_vehicles vs)) / of_nat (length (moving_vehicles vs))) \<and>
      \<bar>of_int (avgSpeed vs)
         - sum_list (map Speed (moving_vehicles vs)) / of_nat (length (moving_vehicles vs))\<bar>
        \<le> 1 / 2) \<and>
   movingCount scenario_fleet = 2 \<and> idleCount scenario_fleet = 1 \<and> avgSpeed scenario_fleet = 83"
proof (intro conjI impI)
  assume "\<not> (\<exists>v\<in>set vs. 0 < Speed v)"
  then have "moving_vehicles vs = []"
    by (simp add: moving_vehicles_empty)
  then show "avgSpeed vs = 0"
    by (simp add: avgSpeed_def moving_vehicles_def)
next
  assume "\<exists>v\<in>set vs. 0 < Speed v"
  then have ne: "moving_vehicles vs \<noteq> []"
    by (simp add: moving_vehicles_empty)
  then show eq: "avgSpeed vs =
      round (sum_list (map Speed (moving_vehicles vs)) / of_nat (length (moving_vehicles vs)))"
    by (simp add: avgSpeed_def moving_vehicles_def Let_def foldl_Speed_sum Math_round_is_round)
  show "\<bar>of_int (avgSpeed vs)
          - sum_list (map Speed (moving_vehicles vs)) / of_nat (length (moving_vehicles vs))\<bar>
        \<le> 1 / 2"
    unfolding eq by (rule of_int_round_abs_le)
next
  show "movingCount scenario_fleet = 2"
    by (simp add: scenario_fleet_def movingCount_def)
  show "idleCount scenario_fleet = 1"
    by (simp add: scenario_fleet_def idleCount_def)
  show "avgSpeed scenario_fleet = 83"
    by (simp add: scenario_fleet_def avgSpeed_def Math_round_def)
qed

theorem avgSpeed_rounded_mean_witness:
  "(\<exists>v\<in>set scenario_fleet. 0 < Speed v) \<and>
   avgSpeed scenario_fleet = round ((45 + 120) / (2::rat)) \<and>
   \<not> (\<exists>v\<in>set (take 1 scenario_fleet). 0 < Speed v) \<and>
   avgSpeed (take 1 scenario_fleet) = 0"
  using avgSpeed_rounded_mean [of scenario_fleet] avgSpeed_rounded_mean [of "take 1 scenario_fleet"]
  by (simp add: scenario_fleet_def moving_vehicles_def)

text \<open>
  Claim C6. When the vehicle request fails, \<open>refresh()\<close> rejects with the error, keeps the
  vehicle collection and the refresh time as they were, and ends with \<open>loading\<close> false.
  When it succeeds, the collection is the response, the refresh time is the current time,
  and \<open>loading\<close> is false. While the request is in flight \<open>loading\<close> is true and the
  collection is untouched.
\<close>

theorem refresh_failure_retains_success_replaces:
  "refresh (Inl err) now st = (Some err, st\<lparr>loading := False\<rparr>) \<and>
   vehicles (snd (refresh (Inl err) now st)) = vehicles st \<and>
   lastRefresh (snd (refresh (Inl err) now st)) = lastRefresh st \<and>
   loading (snd (refresh (Inl err) now st)) = False \<and>
   refresh (Inr vs) now st = (None, st\<lparr>vehicles := vs, lastRefresh := now, loading := False\<rparr>) \<and>
   vehicles (snd (refresh (Inr vs) now st)) = vs \<and>
   lastRefresh (snd (refresh (Inr vs) now st)) = now \<and>
   loading (snd (refresh (Inr vs) now st)) = False \<and>
   loading (refresh_start st) = True \<and> vehicles (refresh_start st) = vehicles st"
  by (simp add: refresh_def refresh_settle_def refresh_start_def)

theorem refresh_failure_retains_success_replaces_witness:
  "refresh (Inl (Error ''API 500: /vehicles/group/G1'')) ''08:05:00'' stale_fleet =
     (Some (Error ''API 500: /vehicles/group/G1''), stale_fleet) \<and>
   snd (refresh (Inr []) ''08:05:00'' stale_fleet) =
     \<lparr>groupCode = ''G1'', vehicles = [], loading = False, lastRefresh = ''08:05:00''\<rparr>"
  using refresh_failure_retains_success_replaces
          [of "Error ''API 500: /vehicles/group/G1''" "''08:05:00''" stale_fleet "[]"]
  by (simp add: stale_fleet_def)


section \<open>Live markers\<close>

lemma forEach_markers:
  "foldl (\<lambda>ls v. case vehicle_marker v of None \<Rightarrow> ls | Some m \<Rightarrow> ls @ [m]) acc vs
     = acc @ List.map_filter vehicle_marker vs"
  by (induction vs arbitrary: acc) (auto simp: List.map_filter_simps split: option.splits)

lemma vehicle_marker_clicked:
  "vehicle_marker v = Some m \<Longrightarrow> clicked m = Some v \<and> truthy (LastPosition_Latitude v)"
  by (auto simp: vehicle_marker_def Let_def split: if_splits)

text \<open>
  Claim C10. A vehicle whose \<open>LastPosition.Latitude\<close> is falsy gets no marker from
  \<open>updateMarkers\<close>: the callback returns before it builds one, and no marker of the layer
  that \<open>updateMarkers\<close> leaves behind is the marker of such a vehicle, whatever its
  longitude is. The numeric latitude 0 and the empty string are falsy.
\<close>

theorem updateMarkers_omits_falsy_latitude:
  assumes "\<not> truthy (LastPosition_Latitude v)"
  shows "vehicle_marker v = None \<and>
         (\<forall>ls. markersLayer (updateMarkers vs e) = Some ls \<longrightarrow>
                 (\<forall>m\<in>set ls. clicked m \<noteq> Some v))"
proof
  show "vehicle_marker v = None"
    using assms by (simp add: vehicle_marker_def)
  show "\<forall>ls. markersLayer (updateMarkers vs e) = Some ls \<longrightarrow> (\<forall>m\<in>set ls. clicked m \<noteq> Some v)"
  proof (intro allI impI ballI)
    fix ls m
    assume ls: "markersLayer (updateMarkers vs e) = Some ls" and m: "m \<in> set ls"
    from ls have "ls = List.map_filter vehicle_marker vs"
      by (auto simp: updateMarkers_def forEach_markers split: option.splits)
    with m obtain w where "vehicle_marker w = Some m"
      by (auto simp: List.map_filter_def)
    then have "clicked m = Some w" and "truthy (LastPosition_Latitude w)"
      using vehicle_marker_clicked by blast+
    with assms show "clicked m \<noteq> Some v"
      by auto
  qed
qed

theorem updateMarkers_omits_falsy_latitude_witness:
  "\<not> truthy (LastPosition_Latitude vehicle_equator) \<and>
   parseFloat (LastPosition_Longitude vehicle_equator) = Num (1443 / 100) \<and>
   vehicle_marker vehicle_equator = None \<and>
   \<not> truthy (LastPosition_Latitude vehicle_blank_latitude) \<and>
   vehicle_marker vehicle_blank_latitude = None \<and>
   map clicked
     (the (markersLayer
        (updateMarkers [vehicle_equator, vehicle_prague, vehicle_blank_latitude] mounted)))
     = [Some vehicle_prague]"
proof -
  have h0: "\<not> truthy (LastPosition_Latitude vehicle_equator)"
    by (simp add: vehicle_equator_def position_eval)
  have h1: "\<not> truthy (LastPosition_Latitude vehicle_blank_latitude)"
    by (simp add: vehicle_blank_latitude_def position_eval)
  have m: "map clicked
     (the (markersLayer
        (updateMarkers [vehicle_equator, vehicle_prague, vehicle_blank_latitude] mounted)))
     = [Some vehicle_prague]"
    by (simp add: vehicle_equator_def vehicle_prague_def vehicle_blank_latitude_def mounted_def
        onMounted_def unmounted_def updateMarkers_def vehicle_marker_def position_eval
        parseFloat_eval)
  have l: "parseFloat (LastPosition_Longitude vehicle_equator) = Num (1443 / 100)"
    by (simp add: vehicle_equator_def position_eval parseFloat_eval)
  show ?thesis
    using updateMarkers_omits_falsy_latitude [OF h0] updateMarkers_omits_falsy_latitude [OF h1]
      h0 h1 m l
    by simp
qed


section \<open>Viewport operations\<close>

lemma panTo_without_latitude:
  "\<not> truthy (LastPosition_Latitude v) \<or> isNaN (parseFloat (LastPosition_Latitude v))
     \<Longrightarrow> panTo v e = (None, e)"
  by (auto simp: panTo_def Let_def)


text \<open>
  Claim C9, at a vehicle whose latitude is \<open>"50.1"\<close> and whose longitude is \<open>null\<close>.
  \<open>updateMarkers\<close> gives it no marker, since it tests both coordinates. \<open>panTo\<close> and
  \<open>fitAll\<close> test the latitude alone and hand the pair to the map, which throws. So
  \<open>panTo\<close> is not a silent return: the selection handler that calls it stops there, with
  the vehicle selected, the earlier trips still in place and no trip request made. And
  \<open>fitAll\<close> does not leave the vehicle out: together with a vehicle that has both
  coordinates it throws, where that vehicle by itself is fitted.
\<close>

theorem panTo_fitAll_throw_on_bad_longitude:
  "truthy (LastPosition_Latitude vehicle_no_longitude) \<and>
   isNaN (parseFloat (LastPosition_Longitude vehicle_no_longitude)) \<and>
   vehicle_marker vehicle_no_longitude = None \<and>
   panTo vehicle_no_longitude mounted = (Some (InvalidLatLng (Num (501 / 10)) NaN), mounted) \<and>
   fitAll [vehicle_prague, vehicle_no_longitude] mounted
     = (Some (InvalidLatLng (Num (501 / 10)) NaN), mounted) \<and>
   fitAll [vehicle_prague] mounted
     = (None, mounted\<lparr>map_view :=
                 Some (FitBounds [(Num (5008 / 100), Num (1443 / 100))] (30, 30))\<rparr>) \<and>
   onSelectVehicle vehicle_no_longitude (initial_app\<lparr>trips := [trip_a]\<rparr>)
     = (Some (InvalidLatLng (Num (501 / 10)) NaN),
        initial_app\<lparr>trips := [trip_a], selectedVehicle := Some vehicle_no_longitude\<rparr>)"
  by (simp add: vehicle_no_longitude_def vehicle_prague_def mounted_def initial_app_def
      onMounted_def unmounted_def panTo_def fitAll_def onSelectVehicle_def clearHistory_def
      vehicle_marker_def map_setView_def map_fitBounds_def toLatLng_def position_eval
      parseFloat_eval Let_def)


section \<open>Route history\<close>

lemma speed_color_tiers: "speed_color s = severity_color s"
  by (simp add: speed_color_def severity_color_def)

lemma drawHistory_layers:
  assumes "historyLayer e \<noteq> None" and "markersLayer e \<noteq> None"
  shows "markersLayer (snd (drawHistory ps e)) = Some [] \<and>
         historyLayer (snd (drawHistory ps e)) \<noteq> None"
  using assms
  by (auto simp: drawHistory_def Let_def split: option.splits sum.splits)

lemma clearHistory_markersLayer: "markersLayer (clearHistory e) = markersLayer e"
  by (simp add: clearHistory_def split: option.splits)

lemma convertLatLngs_valid:
  "\<forall>p\<in>set pts. \<not> isNaN (fst p) \<and> \<not> isNaN (snd p) \<Longrightarrow> convertLatLngs pts = None"
  by (induction pts) (auto simp: toLatLng_def)

lemma add_segment_loop:
  assumes "\<forall>i<length coords. \<not> isNaN (fst (coords ! i)) \<and> \<not> isNaN (snd (coords ! i))"
    and "n \<le> length coords - 1"
  shows "foldl (add_segment coords ps) (None, []) [0..<n] =
           (None, map (\<lambda>i. Polyline [coords ! i, coords ! (i + 1)]
                              (speed_color (pos_Speed (ps ! i))) 3) [0..<n])"
  using assms(2)
proof (induction n)
  case 0
  show ?case by simp
next
  case (Suc n)
  then have n: "n < length coords" and n1: "n + 1 < length coords"
    by auto
  from assms(1) n n1 have "L_polyline [coords ! n, coords ! (n + 1)] c w
      = Inr (Polyline [coords ! n, coords ! (n + 1)] c w)" for c w
    by (simp add: L_polyline_def toLatLng_def)
  with Suc show ?case
    by (simp add: add_segment_def)
qed

text \<open>
  A sample whose latitude does not parse: the first segment is refused, and the route
  layer gets neither a segment nor a marker.
\<close>

lemma drawHistory_unparsable_sample:
  "drawHistory (Some broken_track) mounted = (Some (InvalidLatLng NaN (Num (143 / 10))), mounted)"
  by (simp add: drawHistory_def broken_track_def mounted_def onMounted_def unmounted_def
      add_segment_def L_polyline_def toLatLng_def parseFloat_eval Let_def)

text \<open>
  Claim C3 as it is written fails: one vehicle marker is on the map, a track is drawn and
  the history cleared, and no vehicle marker is left.
\<close>

theorem drawHistory_clearHistory_counterexample:
  "vehicle_count (updateMarkers [vehicle_prague] mounted) = 1 \<and>
   vehicle_count
     (clearHistory (snd (drawHistory (Some sample_track) (updateMarkers [vehicle_prague] mounted))))
     = 0"
proof -
  have h: "historyLayer (updateMarkers [vehicle_prague] mounted) \<noteq> None"
    and m: "markersLayer (updateMarkers [vehicle_prague] mounted) \<noteq> None"
    by (simp_all add: mounted_def onMounted_def unmounted_def updateMarkers_def)
  have n: "vehicle_count (updateMarkers [vehicle_prague] mounted) = 1"
    by (simp add: vehicle_prague_def mounted_def onMounted_def unmounted_def vehicle_count_def
        updateMarkers_def vehicle_marker_def position_eval parseFloat_eval)
  from drawHistory_layers [OF h m, of "Some sample_track"] n show ?thesis
    by (simp add: vehicle_count_def clearHistory_markersLayer)
qed

text \<open>
  Claim C3, amended. On a mounted engine, \<open>drawHistory(positions)\<close> followed by
  \<open>clearHistory()\<close> leaves the route layer empty and the marker layer empty as well:
  \<open>drawHistory\<close> removes every vehicle marker, so the count of vehicle markers is 0
  afterwards. \<open>clearHistory\<close> by itself changes neither the marker layer nor its count.
\<close>

theorem drawHistory_clearHistory_layers:
  assumes "historyLayer e \<noteq> None" and "markersLayer e \<noteq> None"
  shows "historyLayer (clearHistory (snd (drawHistory ps e))) = Some [] \<and>
         markersLayer (clearHistory (snd (drawHistory ps e))) = Some [] \<and>
         vehicle_count (clearHistory (snd (drawHistory ps e))) = 0 \<and>
         (\<forall>e'. markersLayer (clearHistory e') = markersLayer e' \<and>
               vehicle_count (clearHistory e') = vehicle_count e')"
proof -
  have c: "markersLayer (clearHistory e') = markersLayer e'" for e'
    by (rule clearHistory_markersLayer)
  have h: "historyLayer (clearHistory e') = Some []" if "historyLayer e' \<noteq> None" for e'
    using that by (auto simp: clearHistory_def split: option.splits)
  from drawHistory_layers [OF assms, of ps] show ?thesis
    by (simp add: c h vehicle_count_def)
qed

theorem drawHistory_clearHistory_layers_witness:
  "historyLayer (updateMarkers [vehicle_prague] mounted) \<noteq> None \<and>
   markersLayer (updateMarkers [vehicle_prague] mounted) \<noteq> None \<and>
   vehicle_count (updateMarkers [vehicle_prague] mounted) = 1 \<and>
   historyLayer
     (clearHistory (snd (drawHistory (Some sample_track) (updateMarkers [vehicle_prague] mounted))))
     = Some [] \<and>
   markersLayer
     (clearHistory (snd (drawHistory (Some sample_track) (updateMarkers [vehicle_prague] mounted))))
     = Some []"
proof -
  have h: "historyLayer (updateMarkers [vehicle_prague] mounted) \<noteq> None"
    by (simp add: mounted_def onMounted_def unmounted_def updateMarkers_def)
  have m: "markersLayer (updateMarkers [vehicle_prague] mounted) \<noteq> None"
    by (simp add: mounted_def onMounted_def unmounted_def updateMarkers_def)
  have n: "vehicle_count (updateMarkers [vehicle_prague] mounted) = 1"
    by (simp add: vehicle_prague_def mounted_def onMounted_def unmounted_def vehicle_count_def
        updateMarkers_def vehicle_marker_def position_eval parseFloat_eval)
  show ?thesis
    using drawHistory_clearHistory_layers [OF h m, of "Some sample_track"] h m n by blast
qed

text \<open>
  Claim C7. For a track that is not empty and whose samples all have a latitude and a
  longitude that parse, \<open>drawHistory\<close> fills the route layer with one segment for each
  pair of consecutive samples, from the one sample to the next and in the colour of the
  tier of the first sample's speed (at most 60, at most 90, above 90 km/h), followed by
  a start marker at the first sample and an end marker at the last. The two markers
  differ, and nothing is thrown on a mounted map.
\<close>

theorem drawHistory_segments_colored:
  assumes "historyLayer e \<noteq> None" and "markersLayer e \<noteq> None" and "ps \<noteq> []"
    and "\<forall>p\<in>set ps. \<not> isNaN (parseFloat (Lat p)) \<and> \<not> isNaN (parseFloat (Lng p))"
  shows "historyLayer (snd (drawHistory (Some ps) e)) =
           Some (map (\<lambda>i. Polyline [coord (ps ! i), coord (ps ! (i + 1))]
                            (severity_color (pos_Speed (ps ! i))) 3)
                   [0..<length ps - 1]
                 @ [Marker (coord (hd ps)) (pinIcon ''#3dd68c'') (TextPopup ''Start'') None,
                    Marker (coord (last ps)) (pinIcon ''#ff4757'') (TextPopup ''End'') None]) \<and>
         Marker (coord (hd ps)) (pinIcon ''#3dd68c'') (TextPopup ''Start'') None
           \<noteq> Marker (coord (last ps)) (pinIcon ''#ff4757'') (TextPopup ''End'') None \<and>
         fst (drawHistory (Some ps) e) = (if map_view e = None then Some TypeError else None)"
proof -
  let ?coords = "map (\<lambda>p. (parseFloat (Lat p), parseFloat (Lng p))) ps"
  let ?segs = "map (\<lambda>i. Polyline [?coords ! i, ?coords ! (i + 1)]
                         (speed_color (pos_Speed (ps ! i))) 3) [0..<length ps - 1]"
  let ?start = "Marker (?coords ! 0) (pinIcon ''#3dd68c'') (TextPopup ''Start'') None"
  let ?finish = "Marker (?coords ! (length ps - 1)) (pinIcon ''#ff4757'') (TextPopup ''End'') None"
  have valid: "\<forall>i<length ?coords. \<not> isNaN (fst (?coords ! i)) \<and> \<not> isNaN (snd (?coords ! i))"
    using assms(4) by simp
  have loop: "foldl (add_segment ?coords ps) (None, []) [0..<length ?coords - 1] = (None, ?segs)"
    using add_segment_loop [OF valid, of "length ?coords - 1" ps] by simp
  have pos: "0 < length ps"
    using assms(3) by simp
  have start: "L_marker (?coords ! 0) (pinIcon ''#3dd68c'') (TextPopup ''Start'') None = Inr ?start"
    using valid pos by (simp add: L_marker_def toLatLng_def)
  have finish: "L_marker (?coords ! (length ?coords - 1)) (pinIcon ''#ff4757'') (TextPopup ''End'') None
      = Inr ?finish"
    using valid pos by (simp add: L_marker_def toLatLng_def)
  have fit: "map_fitBounds ?coords (40, 40) = Inr (FitBounds ?coords (40, 40))"
    using assms(3,4) by (simp add: map_fitBounds_def convertLatLngs_valid)
  have seg: "?segs = map (\<lambda>i. Polyline [coord (ps ! i), coord (ps ! (i + 1))]
                               (severity_color (pos_Speed (ps ! i))) 3) [0..<length ps - 1]"
    by (rule map_cong) (auto simp: coord_def speed_color_tiers)
  have first: "?coords ! 0 = coord (hd ps)"
    using assms(3) by (simp add: coord_def hd_conv_nth)
  have lst: "?coords ! (length ps - 1) = coord (last ps)"
    using assms(3) by (simp add: coord_def last_conv_nth)
  have run: "drawHistory (Some ps) e =
      (case map_view e of
         None \<Rightarrow> (Some TypeError,
                   e\<lparr>historyLayer := Some (?segs @ [?start, ?finish]), markersLayer := Some []\<rparr>)
       | Some _ \<Rightarrow>
           (None, e\<lparr>historyLayer := Some (?segs @ [?start, ?finish]), markersLayer := Some [],
                    map_view := Some (FitBounds ?coords (40, 40))\<rparr>))"
    using assms(1,2,3) loop start finish fit
    by (auto simp: drawHistory_def Let_def split: option.splits)
  have layer: "historyLayer (snd (drawHistory (Some ps) e)) = Some (?segs @ [?start, ?finish])"
    unfolding run by (simp split: option.splits)
  have err: "fst (drawHistory (Some ps) e) = (if map_view e = None then Some TypeError else None)"
    unfolding run by (simp split: option.splits)
  from layer err show ?thesis
    unfolding seg first lst by (simp add: pinIcon_def)
qed

theorem drawHistory_segments_colored_witness:
  "historyLayer mounted \<noteq> None \<and> markersLayer mounted \<noteq> None \<and> sample_track \<noteq> [] \<and>
   list_all (\<lambda>p. \<not> isNaN (parseFloat (Lat p)) \<and> \<not> isNaN (parseFloat (Lng p))) sample_track \<and>
   fst (drawHistory (Some sample_track) mounted) = None \<and>
   historyLayer (snd (drawHistory (Some sample_track) mounted)) =
     Some [Polyline [(Num (501 / 10), Num (142 / 10)), (Num (502 / 10), Num (143 / 10))]
             ''#3dd68c'' 3,
           Polyline [(Num (502 / 10), Num (143 / 10)), (Num (503 / 10), Num (144 / 10))]
             ''#f5a623'' 3,
           Polyline [(Num (503 / 10), Num (144 / 10)), (Num (504 / 10), Num (145 / 10))]
             ''#ff4757'' 3,
           Marker (Num (501 / 10), Num (142 / 10)) (DivIcon 12 ''#3dd68c'' [])
             (TextPopup ''Start'') None,
           Marker (Num (504 / 10), Num (145 / 10)) (DivIcon 12 ''#ff4757'' [])
             (TextPopup ''End'') None]"
proof -
  have h: "historyLayer mounted \<noteq> None" and m: "markersLayer mounted \<noteq> None"
    and v: "map_view mounted \<noteq> None"
    by (simp_all add: mounted_def onMounted_def unmounted_def)
  have t: "sample_track \<noteq> []"
    by (simp add: sample_track_def)
  have p: "\<forall>p\<in>set sample_track.
             \<not> isNaN (parseFloat (Lat p)) \<and> \<not> isNaN (parseFloat (Lng p))"
    by (simp add: sample_track_def parseFloat_eval)
  show ?thesis
    using drawHistory_segments_colored [OF h m t p] h m v t p
    by (simp add: sample_track_def coord_def severity_color_def pinIcon_def parseFloat_eval
        upt_rec list_all_iff)
qed


section \<open>Eco-event speed\<close>

lemma drawEcoChart_counts_ignore_Speed:
  "drawEcoChart_counts (map (\<lambda>e. e\<lparr>ev_Speed := f e\<rparr>) evs) = drawEcoChart_counts evs"
  by (simp add: drawEcoChart_counts_def foldl_map)

lemma km_h_not_NA: "s @ '' km/h'' \<noteq> ''N/A''"
proof
  assume "s @ '' km/h'' = ''N/A''"
  then have "last (s @ '' km/h'') = last ''N/A''"
    by (rule arg_cong)
  then show False
    by simp
qed

text \<open>
  Claim C8. For an eco event whose speed is a 32-bit signed integer, the row shows
  \<open>N/A\<close> when the speed is the least such integer, and otherwise the speed as a number
  followed by the unit, which is never the text \<open>N/A\<close>. The one aggregation the code makes
  over eco events, the counts by event type of the doughnut chart, does not read the
  speed: it is the same whatever the speeds are.
\<close>

theorem eco_sentinel_speed_not_available:
  "(- 2147483648 \<le> ev_Speed ev \<longrightarrow>
      eco_speed_text ev =
        (if ev_Speed ev = - 2147483648 then ''N/A''
         else Number_toString (ev_Speed ev) @ '' km/h'')) \<and>
   Number_toString n @ '' km/h'' \<noteq> ''N/A'' \<and>
   drawEcoChart_counts (map (\<lambda>e. e\<lparr>ev_Speed := f e\<rparr>) evs) = drawEcoChart_counts evs"
  by (auto simp: eco_speed_text_def km_h_not_NA drawEcoChart_counts_ignore_Speed)

theorem eco_sentinel_speed_not_available_witness:
  "- 2147483648 \<le> ev_Speed no_reading \<and> eco_speed_text no_reading = ''N/A'' \<and>
   - 2147483648 \<le> ev_Speed harsh_brake \<and> eco_speed_text harsh_brake = ''87 km/h'' \<and>
   drawEcoChart_counts [harsh_brake, no_reading] = [(''Hard Brake'', 1), (''Hard Accel'', 1)]"
  using eco_sentinel_speed_not_available [of no_reading 0 "\<lambda>e. 0" "[]"]
    eco_sentinel_speed_not_available [of harsh_brake 0 "\<lambda>e. 0" "[]"]
  by (simp add: no_reading_def harsh_brake_def Number_toString_def drawEcoChart_counts_def
      ECO_NAMES_def)


section \<open>Selecting a vehicle\<close>



text \<open>
  On a mounted map the handler gets past \<open>panTo\<close> for every vehicle whose latitude is
  falsy or does not parse, or whose longitude parses.
\<close>

lemma onSelectVehicle_passes:
  assumes "map_view (engine st) \<noteq> None"
    and "\<not> truthy (LastPosition_Latitude v) \<or> isNaN (parseFloat (LastPosition_Latitude v))
         \<or> \<not> isNaN (parseFloat (LastPosition_Longitude v))"
  shows "fst (onSelectVehicle v st) = None"
  using assms
  by (auto simp: onSelectVehicle_def panTo_def map_setView_def toLatLng_def clearHistory_def
      Let_def split: option.splits)






text \<open>
  Claim C2, at a selection of a vehicle without a position after one with a position.
  The first vehicle is selected, its trips and its weather arrive; then the second is
  selected. Its trip request is in flight while the weather state still holds the first
  vehicle's snapshot, and the snapshot is still there once the second vehicle's trips
  have arrived: no weather request is made for a vehicle without coordinates, and only
  that request resets the weather.
\<close>

theorem weather_survives_selection:
  "selectedVehicle
     (run [SelectVehicle vehicle_prague, TripsSettled vehicle_prague (Inr (Some [trip_a])),
           WeatherSettled (Num (5008 / 100)) (Num (1443 / 100)) (Inr sunny),
           SelectVehicle vehicle_unlocated] initial_app)
     = Some vehicle_unlocated \<and>
   GetTrips vehicle_unlocated \<in> set (pending
     (run [SelectVehicle vehicle_prague, TripsSettled vehicle_prague (Inr (Some [trip_a])),
           WeatherSettled (Num (5008 / 100)) (Num (1443 / 100)) (Inr sunny),
           SelectVehicle vehicle_unlocated] initial_app)) \<and>
   weather
     (run [SelectVehicle vehicle_prague, TripsSettled vehicle_prague (Inr (Some [trip_a])),
           WeatherSettled (Num (5008 / 100)) (Num (1443 / 100)) (Inr sunny),
           SelectVehicle vehicle_unlocated] initial_app)
     = Some \<lparr>label = ''Clear sky'', temp = 21, wind = 9\<rparr> \<and>
   weather
     (run [SelectVehicle vehicle_prague, TripsSettled vehicle_prague (Inr (Some [trip_a])),
           WeatherSettled (Num (5008 / 100)) (Num (1443 / 100)) (Inr sunny),
           SelectVehicle vehicle_unlocated,
           TripsSettled vehicle_unlocated (Inr (Some [trip_b]))] initial_app)
     = Some \<lparr>label = ''Clear sky'', temp = 21, wind = 9\<rparr>"
  by (simp add: app_eval initial_app_def vehicle_prague_def vehicle_unlocated_def trip_a_def
      trip_b_def sunny_def parseFloat_eval)

end
